theory Spec2Isabelle
  imports Complex_Main "HOL-Library.Multiset" "HOL-Library.Sublist"
begin

section \<open>JavaScript numbers and values\<close>

text \<open>
  The numbers the server computes with are ratios of set sizes and differences of
  millisecond time stamps. They are kept exact (a rational), with the three non-finite
  values of a JavaScript number written out: \<open>0 / 0\<close> is \<open>NaN\<close> in JavaScript, where
  HOL's division would give \<open>0\<close>. Distinct ratios of sizes below \<open>2 ^ 26\<close> are distinct
  doubles in the same order, so comparing the exact values is comparing the doubles.
\<close>

datatype jsnum = NaN | PosInf | NegInf | Num rat

text \<open>\<open>n / d\<close> for two sizes.\<close>

definition size_div :: "nat \<Rightarrow> nat \<Rightarrow> jsnum" where
  "size_div n d =
     (if d = 0 then (if n = 0 then NaN else PosInf) else Num (of_nat n / of_nat d))"

fun js_sub :: "jsnum \<Rightarrow> jsnum \<Rightarrow> jsnum" where
  "js_sub (Num a) (Num b) = Num (a - b)"
| "js_sub NaN y = NaN"
| "js_sub x NaN = NaN"
| "js_sub PosInf PosInf = NaN"
| "js_sub NegInf NegInf = NaN"
| "js_sub PosInf y = PosInf"
| "js_sub NegInf y = NegInf"
| "js_sub (Num a) PosInf = NegInf"
| "js_sub (Num a) NegInf = PosInf"

text \<open>\<open>x > 0\<close>: false for \<open>NaN\<close>.\<close>

fun js_pos :: "jsnum \<Rightarrow> bool" where
  "js_pos (Num r) = (0 < r)"
| "js_pos PosInf = True"
| "js_pos NegInf = False"
| "js_pos NaN = False"

text \<open>\<open>x < y\<close> on numbers, as the sign of \<open>y - x\<close>; false when either side is \<open>NaN\<close>.\<close>

definition js_less :: "jsnum \<Rightarrow> jsnum \<Rightarrow> bool" where
  "js_less x y = js_pos (js_sub y x)"

text \<open>
  A value of type \<open>any\<close>: what the front matter of a document holds.
\<close>

datatype jsval =
    Undefined
  | Null
  | Bool bool
  | Number jsnum
  | Str string
  | Arr "jsval list"
  | Obj "(string \<times> jsval) list"

fun truthy :: "jsval \<Rightarrow> bool" where
  "truthy Undefined = False"
| "truthy Null = False"
| "truthy (Bool b) = b"
| "truthy (Number n) = (n \<noteq> NaN \<and> n \<noteq> Num 0)"
| "truthy (Str s) = (s \<noteq> [])"
| "truthy (Arr vs) = True"
| "truthy (Obj kvs) = True"

text \<open>Reading a property of an object: \<open>undefined\<close> when it is absent.\<close>

definition get_prop :: "(string \<times> jsval) list \<Rightarrow> string \<Rightarrow> jsval" where
  "get_prop obj k = (case map_of obj k of None \<Rightarrow> Undefined | Some v \<Rightarrow> v)"

section \<open>Documents and the document store\<close>

text \<open>
  \<open>interface Document\<close>. \<open>lastModified\<close> is the time value of \<open>stats.mtime\<close> in
  milliseconds (a valid \<open>Date\<close>); \<open>tokens\<close> is optional in the interface; \<open>title\<close> holds the
  front matter's \<open>title\<close> when that is truthy, whatever its type.
\<close>

record Document =
  doc_id :: string
  path :: string
  title :: jsval
  content :: string
  frontmatter :: "(string \<times> jsval) list"
  lastModified :: int
  tokens :: "string list option"

text \<open>
  \<open>documents: Map<string, Document>\<close>. A JavaScript \<open>Map\<close> iterates in insertion order, and
  \<open>set\<close> on a key it holds replaces the value where the key stands.
\<close>

type_synonym store = "(string \<times> Document) list"

fun Map_set :: "string \<Rightarrow> Document \<Rightarrow> store \<Rightarrow> store" where
  "Map_set k v [] = [(k, v)]"
| "Map_set k v (e # m) = (if fst e = k then (k, v) # m else e # Map_set k v m)"

definition Map_get :: "store \<Rightarrow> string \<Rightarrow> Document option" where
  "Map_get m k = map_of m k"

definition Map_delete :: "string \<Rightarrow> store \<Rightarrow> store" where
  "Map_delete k m = filter (\<lambda>e. fst e \<noteq> k) m"

definition Map_values :: "store \<Rightarrow> Document list" where
  "Map_values m = map snd m"

section \<open>The similarity of two documents\<close>

text \<open>
  \<open>calculateSimilarity\<close>: \<open>0\<close> when either document has no \<open>tokens\<close> field; otherwise
  the size of the intersection of the two token sets over the size of their union. An
  empty array is truthy, so two empty token lists reach the division.
\<close>

definition calculateSimilarity :: "Document \<Rightarrow> Document \<Rightarrow> jsnum" where
  "calculateSimilarity doc1 doc2 =
     (case (tokens doc1, tokens doc2) of
        (Some t1, Some t2) \<Rightarrow>
          (let set1 = set t1;
               set2 = set t2;
               intersection = Set.filter (\<lambda>x. x \<in> set2) set1;
               union = set1 \<union> set2
           in size_div (card intersection) (card union))
      | _ \<Rightarrow> Num 0)"

section \<open>The libraries and the runtime\<close>

text \<open>
  \<open>new Fuse(documents, options)\<close>: the documents the index was built from and the options
  of \<open>rebuildSearchIndex\<close>.
\<close>

record Fuse =
  fuse_docs :: "Document list"
  keys :: "(string \<times> rat) list"
  includeScore :: bool
  threshold :: rat
  ignoreLocation :: bool
  useExtendedSearch :: bool

text \<open>One hit of \<open>fuse.search\<close>: \<open>result.item\<close> and \<open>result.score\<close>.\<close>

record fuse_result =
  item :: Document
  fuse_score :: jsnum

datatype js_error = Error string | TypeError string | SystemError string

text \<open>
  What the server calls and does not define, as parameters: gray-matter's \<open>matter\<close> (it
  throws on front matter that does not parse, and gives the \<open>data\<close> object and the
  \<open>content\<close>), \<open>marked.parse\<close>, the string methods \<open>trim\<close> and \<open>toLowerCase\<close>, the
  word tokenizer, \<open>path.relative\<close> and \<open>path.basename\<close>, \<open>fuse.search(query, {limit})\<close>
  and \<open>new Date(string)\<close>, whose result is \<open>None\<close> for an invalid date (time value
  \<open>NaN\<close>).
\<close>

record externals =
  matter :: "string \<Rightarrow> js_error + ((string \<times> jsval) list \<times> string)"
  marked_parse :: "string \<Rightarrow> string"
  trim :: "string \<Rightarrow> string"
  toLowerCase :: "string \<Rightarrow> string"
  tokenize :: "string \<Rightarrow> string list"
  path_relative :: "string \<Rightarrow> string \<Rightarrow> string"
  path_basename :: "string \<Rightarrow> string \<Rightarrow> string"
  fuse_search :: "Fuse \<Rightarrow> string \<Rightarrow> int \<Rightarrow> fuse_result list"
  new_Date :: "string \<Rightarrow> int option"

text \<open>
  \<open>Array.prototype.sort(compare)\<close>. The sort is stable: an element stays in front of
  every later element unless the comparator puts it behind, that is unless
  \<open>compare(x, y) > 0\<close>; a comparator result of \<open>NaN\<close> counts as \<open>0\<close>. For a consistent
  comparator this insertion sort gives the one stable result.
\<close>

fun js_insert :: "('a \<Rightarrow> 'a \<Rightarrow> jsnum) \<Rightarrow> 'a \<Rightarrow> 'a list \<Rightarrow> 'a list" where
  "js_insert compare x [] = [x]"
| "js_insert compare x (y # ys) =
     (if js_pos (compare x y) then y # js_insert compare x ys else x # y # ys)"

definition js_sort :: "('a \<Rightarrow> 'a \<Rightarrow> jsnum) \<Rightarrow> 'a list \<Rightarrow> 'a list" where
  "js_sort compare xs = foldr (js_insert compare) xs []"

text \<open>\<open>xs.slice(0, e)\<close>: a negative end counts from the end of the array.\<close>

definition slice0 :: "'a list \<Rightarrow> int \<Rightarrow> 'a list" where
  "slice0 xs e = (if e < 0 then take (nat (int (length xs) + e)) xs else take (nat e) xs)"

text \<open>\<open>s.substring(0, n)\<close> for a literal \<open>n\<close>.\<close>

definition substring0 :: "string \<Rightarrow> nat \<Rightarrow> string" where
  "substring0 s n = take n s"

text \<open>\<open>a < b\<close> on two dates compares their time values; an invalid date compares false.\<close>

fun date_less :: "int option \<Rightarrow> int option \<Rightarrow> bool" where
  "date_less (Some a) (Some b) = (a < b)"
| "date_less a b = False"

section \<open>The server's state and the replies of its tools\<close>

datatype log_line =
    DocumentAdded string
  | DocumentChanged string
  | DocumentRemoved string
  | ErrorLoadingDocument string js_error

text \<open>
  The fields of \<open>MarkdownBrainServer\<close> that the operations read or write; \<open>console\<close> is
  what \<open>console.error\<close> has printed, \<open>tfidf\<close> the texts added to the TF-IDF object.
\<close>

record server =
  documents :: store
  fuse :: "Fuse option"
  docsPath :: string
  tfidf :: "string list"
  console :: "log_line list"

record search_hit =
  hit_id :: string
  hit_title :: jsval
  hit_score :: jsnum
  hit_excerpt :: string
  hit_tags :: jsval

record document_view =
  view_id :: string
  view_title :: jsval
  view_frontmatter :: "(string \<times> jsval) list"
  view_content :: string
  view_lastModified :: int

record list_entry =
  entry_id :: string
  entry_title :: jsval
  entry_tags :: jsval
  entry_lastModified :: int

record similar_entry =
  sim_id :: string
  sim_score :: jsnum
  sim_title :: jsval

record date_entry =
  date_id :: string
  date_title :: jsval
  date_lastModified :: int
  date_excerpt :: string

text \<open>
  Every tool replies \<open>{content: [{type: 'text', text: ...}]}\<close>; the reply is modelled by
  its text: a message, or the value handed to \<open>JSON.stringify\<close>.
\<close>

datatype tool_result =
    Text string
  | SearchJson "search_hit list"
  | DocumentJson document_view
  | ListJson "list_entry list"
  | SimilarJson "similar_entry list"
  | DateJson "date_entry list"

section \<open>Similar documents\<close>

text \<open>The loop of \<open>findSimilarDocuments\<close> over the store, in its iteration order.\<close>

fun similarity_scores :: "string \<Rightarrow> Document \<Rightarrow> store \<Rightarrow> similar_entry list" where
  "similarity_scores i targetDoc [] = []"
| "similarity_scores i targetDoc (e # m) =
     (if fst e = i then similarity_scores i targetDoc m
      else \<lparr>sim_id = fst e, sim_score = calculateSimilarity targetDoc (snd e),
             sim_title = title (snd e)\<rparr> # similarity_scores i targetDoc m)"

definition by_score_desc :: "similar_entry \<Rightarrow> similar_entry \<Rightarrow> jsnum" where
  "by_score_desc a b = js_sub (sim_score b) (sim_score a)"

definition findSimilarDocuments :: "server \<Rightarrow> string \<Rightarrow> int \<Rightarrow> tool_result" where
  "findSimilarDocuments s i limit =
     (case Map_get (documents s) i of
        None \<Rightarrow> Text (''Document not found: '' @ i)
      | Some targetDoc \<Rightarrow>
          (let scores = similarity_scores i targetDoc (documents s);
               sorted_scores = js_sort by_score_desc scores;
               topResults = slice0 sorted_scores limit
           in SimilarJson topResults))"

section \<open>Search by date\<close>

definition by_date_desc :: "Document \<Rightarrow> Document \<Rightarrow> jsnum" where
  "by_date_desc a b = js_sub (Num (of_int (lastModified b))) (Num (of_int (lastModified a)))"

text \<open>
  The documents \<open>searchByDate\<close> keeps, sorted. A bound is applied when its argument is
  truthy: given, and not the empty string.
\<close>

definition date_filter_after :: "externals \<Rightarrow> string option \<Rightarrow> Document list \<Rightarrow> Document list" where
  "date_filter_after ext after_arg docs =
     (case after_arg of
        None \<Rightarrow> docs
      | Some a \<Rightarrow>
          if a = [] then docs
          else (let afterDate = new_Date ext a
                in filter (\<lambda>doc. date_less afterDate (Some (lastModified doc))) docs))"

definition date_filter_before :: "externals \<Rightarrow> string option \<Rightarrow> Document list \<Rightarrow> Document list" where
  "date_filter_before ext before_arg docs =
     (case before_arg of
        None \<Rightarrow> docs
      | Some b \<Rightarrow>
          if b = [] then docs
          else (let beforeDate = new_Date ext b
                in filter (\<lambda>doc. date_less (Some (lastModified doc)) beforeDate) docs))"

definition date_docs :: "externals \<Rightarrow> server \<Rightarrow> string option \<Rightarrow> string option \<Rightarrow> Document list" where
  "date_docs ext s after_arg before_arg =
     js_sort by_date_desc
       (date_filter_before ext before_arg
          (date_filter_after ext after_arg (Map_values (documents s))))"

definition date_result :: "Document \<Rightarrow> date_entry" where
  "date_result doc =
     \<lparr>date_id = doc_id doc, date_title = title doc, date_lastModified = lastModified doc,
      date_excerpt = substring0 (content doc) 150 @ ''...''\<rparr>"

definition searchByDate :: "externals \<Rightarrow> server \<Rightarrow> string option \<Rightarrow> string option \<Rightarrow> tool_result" where
  "searchByDate ext s after_arg before_arg =
     DateJson (map date_result (date_docs ext s after_arg before_arg))"

section \<open>Loading a document\<close>

text \<open>
  The files under the documents folder: the raw text of a file, its modification time in
  milliseconds, and whether it can be read. \<open>fs.readFile\<close> and \<open>fs.stat\<close> reject for a file
  that is not there; \<open>readFile\<close> also for one that cannot be read.
\<close>

record file_entry =
  raw :: string
  mtime :: int
  readable :: bool

type_synonym filesystem = "string \<Rightarrow> file_entry option"

definition readFile :: "filesystem \<Rightarrow> string \<Rightarrow> js_error + string" where
  "readFile fs filePath =
     (case fs filePath of
        None \<Rightarrow> Inl (SystemError ''ENOENT'')
      | Some f \<Rightarrow> if readable f then Inr (raw f) else Inl (SystemError ''EACCES''))"

definition stat :: "filesystem \<Rightarrow> string \<Rightarrow> js_error + int" where
  "stat fs filePath =
     (case fs filePath of None \<Rightarrow> Inl (SystemError ''ENOENT'') | Some f \<Rightarrow> Inr (mtime f))"

text \<open>
  \<open>html.replace(/<[^>]*>/g, '')\<close>: every \<open><\<close> with a later \<open>>\<close> is dropped together with
  the text up to the first such \<open>>\<close>.
\<close>

function strip_tags :: "string \<Rightarrow> string" where
  "strip_tags [] = []"
| "strip_tags (c # cs) =
     (if c = CHR ''<'' \<and> CHR ''>'' \<in> set cs
      then strip_tags (tl (dropWhile (\<lambda>x. x \<noteq> CHR ''>'') cs))
      else c # strip_tags cs)"
  by pat_completeness auto
termination
proof (relation "measure length")
  fix c :: char and cs :: string
  have "length (tl (dropWhile (\<lambda>x. x \<noteq> CHR ''>'') cs))
          \<le> length (dropWhile (\<lambda>x. x \<noteq> CHR ''>'') cs)"
    by simp
  also have "\<dots> \<le> length cs"
    by (rule length_dropWhile_le)
  finally show "(tl (dropWhile (\<lambda>x. x \<noteq> CHR ''>'') cs), c # cs) \<in> measure length"
    by simp
qed simp_all

definition markdownToPlainText :: "externals \<Rightarrow> string \<Rightarrow> string" where
  "markdownToPlainText ext markdown =
     (let html = marked_parse ext markdown in trim ext (strip_tags html))"

text \<open>\<open>s.replace(/-/g, ' ')\<close>.\<close>

definition dashes_to_spaces :: "string \<Rightarrow> string" where
  "dashes_to_spaces s = map (\<lambda>c. if c = CHR ''-'' then CHR '' '' else c) s"

text \<open>
  The record \<open>loadDocument\<close> builds from what it read: the front matter and the markdown
  of the file, and the modification time.
\<close>

definition build_document ::
  "externals \<Rightarrow> string \<Rightarrow> string \<Rightarrow> (string \<times> jsval) list \<Rightarrow> string \<Rightarrow> int \<Rightarrow> Document" where
  "build_document ext docs_root filePath fm markdown mt =
     (let i = path_relative ext docs_root filePath;
          t = (if truthy (get_prop fm ''title'') then get_prop fm ''title''
               else Str (dashes_to_spaces (path_basename ext filePath ''.md'')));
          plainText = markdownToPlainText ext markdown;
          toks = tokenize ext (toLowerCase ext plainText)
      in \<lparr>doc_id = i, path = filePath, title = t, content = plainText, frontmatter = fm,
          lastModified = mt, tokens = Some toks\<rparr>)"

text \<open>
  \<open>loadDocument\<close> waits twice, for \<open>readFile\<close> and for \<open>stat\<close>. \<open>load_read\<close> is the part up
  to the second wait: the file is read and its front matter split off. \<open>load_store\<close> is the
  part after it: the record is built and stored. Either part can throw; the \<open>catch\<close> logs
  the error and changes nothing else (\<open>load_failed\<close>).
\<close>

definition load_read ::
  "externals \<Rightarrow> filesystem \<Rightarrow> string \<Rightarrow> js_error + ((string \<times> jsval) list \<times> string)" where
  "load_read ext fs filePath =
     (case readFile fs filePath of Inl e \<Rightarrow> Inl e | Inr text \<Rightarrow> matter ext text)"

definition load_store ::
  "externals \<Rightarrow> filesystem \<Rightarrow> server \<Rightarrow> string \<Rightarrow> (string \<times> jsval) list \<Rightarrow> string
     \<Rightarrow> js_error + server" where
  "load_store ext fs s filePath fm markdown =
     (case stat fs filePath of
        Inl e \<Rightarrow> Inl e
      | Inr mt \<Rightarrow>
          (let doc = build_document ext (docsPath s) filePath fm markdown mt
           in Inr (s\<lparr>documents := Map_set (doc_id doc) doc (documents s),
                     tfidf := tfidf s @ [content doc]\<rparr>)))"

definition load_failed :: "server \<Rightarrow> string \<Rightarrow> js_error \<Rightarrow> server" where
  "load_failed s filePath e = s\<lparr>console := console s @ [ErrorLoadingDocument filePath e]\<rparr>"

text \<open>\<open>loadDocument\<close> when nothing else runs between its two waits.\<close>

definition loadDocument :: "externals \<Rightarrow> filesystem \<Rightarrow> server \<Rightarrow> string \<Rightarrow> server" where
  "loadDocument ext fs s filePath =
     (case load_read ext fs filePath of
        Inl e \<Rightarrow> load_failed s filePath e
      | Inr (fm, markdown) \<Rightarrow>
          (case load_store ext fs s filePath fm markdown of
             Inl e \<Rightarrow> load_failed s filePath e
           | Inr s' \<Rightarrow> s'))"

section \<open>The search index\<close>

text \<open>The weights are the literals \<open>0.3\<close>, \<open>0.5\<close> and \<open>0.2\<close>, the threshold \<open>0.4\<close>.\<close>

definition rebuildSearchIndex :: "server \<Rightarrow> server" where
  "rebuildSearchIndex s =
     (let docs = Map_values (documents s)
      in s\<lparr>fuse := Some
             \<lparr>fuse_docs = docs,
              keys = [(''title'', 3 / 10), (''content'', 5 / 10), (''frontmatter.tags'', 2 / 10)],
              includeScore = True,
              threshold = 4 / 10,
              ignoreLocation = True,
              useExtendedSearch = True\<rparr>\<rparr>)"

text \<open>The weight the index gives a key.\<close>

definition key_weight :: "server \<Rightarrow> string \<Rightarrow> rat option" where
  "key_weight s k = (case fuse s of None \<Rightarrow> None | Some f \<Rightarrow> map_of (keys f) k)"

section \<open>The file watcher\<close>

definition console_error :: "log_line \<Rightarrow> server \<Rightarrow> server" where
  "console_error l s = s\<lparr>console := console s @ [l]\<rparr>"

text \<open>
  The three handlers of \<open>watchDocuments\<close>, each run to its end with nothing in between.
\<close>

definition on_add :: "externals \<Rightarrow> filesystem \<Rightarrow> server \<Rightarrow> string \<Rightarrow> server" where
  "on_add ext fs s filePath =
     rebuildSearchIndex (loadDocument ext fs (console_error (DocumentAdded filePath) s) filePath)"

definition on_change :: "externals \<Rightarrow> filesystem \<Rightarrow> server \<Rightarrow> string \<Rightarrow> server" where
  "on_change ext fs s filePath =
     rebuildSearchIndex (loadDocument ext fs (console_error (DocumentChanged filePath) s) filePath)"

definition on_unlink :: "externals \<Rightarrow> server \<Rightarrow> string \<Rightarrow> server" where
  "on_unlink ext s filePath =
     (let s1 = console_error (DocumentRemoved filePath) s;
          i = path_relative ext (docsPath s1) filePath
      in rebuildSearchIndex (s1\<lparr>documents := Map_delete i (documents s1)\<rparr>))"

text \<open>
  The handlers of \<open>add\<close> and \<open>change\<close> are \<open>async\<close> and the watcher does not wait for them:
  a handler stops at each \<open>await\<close> of \<open>loadDocument\<close>, and the files may change and other
  handlers may start or go on before it is resumed. A handler in flight is a task: it
  waits for \<open>readFile\<close>, or it has read the file and waits for \<open>stat\<close>.
\<close>

datatype task =
    AwaitRead string
  | AwaitStat string "(string \<times> jsval) list" string
  | Finished

record world =
  files :: filesystem
  srv :: server
  tasks :: "task list"

text \<open>
  What can happen next: the files change, the watcher delivers an event, or the task of
  a given number (in the order the events arrived) is resumed.
\<close>

datatype action =
    WriteFile string file_entry
  | RemoveFile string
  | AddEvent string
  | ChangeEvent string
  | UnlinkEvent string
  | Resume nat

definition resume :: "externals \<Rightarrow> nat \<Rightarrow> world \<Rightarrow> world" where
  "resume ext k w =
     (if k < length (tasks w) then
        (case tasks w ! k of
           AwaitRead filePath \<Rightarrow>
             (case load_read ext (files w) filePath of
                Inl e \<Rightarrow>
                  w\<lparr>srv := rebuildSearchIndex (load_failed (srv w) filePath e),
                    tasks := (tasks w)[k := Finished]\<rparr>
              | Inr (fm, markdown) \<Rightarrow>
                  w\<lparr>tasks := (tasks w)[k := AwaitStat filePath fm markdown]\<rparr>)
         | AwaitStat filePath fm markdown \<Rightarrow>
             (case load_store ext (files w) (srv w) filePath fm markdown of
                Inl e \<Rightarrow>
                  w\<lparr>srv := rebuildSearchIndex (load_failed (srv w) filePath e),
                    tasks := (tasks w)[k := Finished]\<rparr>
              | Inr s' \<Rightarrow>
                  w\<lparr>srv := rebuildSearchIndex s', tasks := (tasks w)[k := Finished]\<rparr>)
         | Finished \<Rightarrow> w)
      else w)"

fun step :: "externals \<Rightarrow> world \<Rightarrow> action \<Rightarrow> world" where
  "step ext w (WriteFile filePath f) = w\<lparr>files := (files w)(filePath \<mapsto> f)\<rparr>"
| "step ext w (RemoveFile filePath) = w\<lparr>files := (files w)(filePath := None)\<rparr>"
| "step ext w (AddEvent filePath) =
     w\<lparr>srv := console_error (DocumentAdded filePath) (srv w),
       tasks := tasks w @ [AwaitRead filePath]\<rparr>"
| "step ext w (ChangeEvent filePath) =
     w\<lparr>srv := console_error (DocumentChanged filePath) (srv w),
       tasks := tasks w @ [AwaitRead filePath]\<rparr>"
| "step ext w (UnlinkEvent filePath) = w\<lparr>srv := on_unlink ext (srv w) filePath\<rparr>"
| "step ext w (Resume k) = resume ext k w"

definition run :: "externals \<Rightarrow> world \<Rightarrow> action list \<Rightarrow> world" where
  "run ext w acts = foldl (step ext) w acts"

section \<open>The tools\<close>

text \<open>\<open>result.item.frontmatter.tags || []\<close>.\<close>

definition tags_or_empty :: "Document \<Rightarrow> jsval" where
  "tags_or_empty doc =
     (let t = get_prop (frontmatter doc) ''tags'' in if truthy t then t else Arr [])"

definition search_result :: "fuse_result \<Rightarrow> search_hit" where
  "search_result result =
     \<lparr>hit_id = doc_id (item result), hit_title = title (item result),
      hit_score = fuse_score result,
      hit_excerpt = substring0 (content (item result)) 200 @ ''...'',
      hit_tags = tags_or_empty (item result)\<rparr>"

text \<open>\<open>formattedResults\<close>: one entry for each hit of \<open>fuse.search(query, {limit})\<close>.\<close>

definition formattedResults :: "externals \<Rightarrow> Fuse \<Rightarrow> string \<Rightarrow> int \<Rightarrow> search_hit list" where
  "formattedResults ext f query limit = map search_result (fuse_search ext f query limit)"

definition searchDocuments :: "externals \<Rightarrow> server \<Rightarrow> string \<Rightarrow> int \<Rightarrow> tool_result" where
  "searchDocuments ext s query limit =
     (case fuse s of
        None \<Rightarrow> Text ''No documents loaded yet''
      | Some f \<Rightarrow> SearchJson (formattedResults ext f query limit))"

definition getDocument :: "server \<Rightarrow> string \<Rightarrow> tool_result" where
  "getDocument s i =
     (case Map_get (documents s) i of
        None \<Rightarrow> Text (''Document not found: '' @ i)
      | Some doc \<Rightarrow>
          DocumentJson
            \<lparr>view_id = doc_id doc, view_title = title doc,
             view_frontmatter = frontmatter doc, view_content = content doc,
             view_lastModified = lastModified doc\<rparr>)"

text \<open>\<open>s.includes(t)\<close> on strings: \<open>t\<close> occurs in \<open>s\<close>.\<close>

fun str_includes :: "string \<Rightarrow> string \<Rightarrow> bool" where
  "str_includes [] t = (t = [])"
| "str_includes (c # cs) t = (prefix t (c # cs) \<or> str_includes cs t)"

text \<open>
  \<open>doc.frontmatter.tags && doc.frontmatter.tags.includes(tag)\<close>: false for falsy tags,
  membership for an array, containment for a string, and a \<open>TypeError\<close> for any other
  truthy value, which has no \<open>includes\<close>.
\<close>

definition tags_include :: "jsval \<Rightarrow> string \<Rightarrow> js_error + bool" where
  "tags_include t tag =
     (if \<not> truthy t then Inr False
      else (case t of
              Str s \<Rightarrow> Inr (str_includes s tag)
            | Arr vs \<Rightarrow> Inr (Str tag \<in> set vs)
            | _ \<Rightarrow> Inl (TypeError ''doc.frontmatter.tags.includes is not a function'')))"

fun filter_by_tag :: "string \<Rightarrow> Document list \<Rightarrow> js_error + Document list" where
  "filter_by_tag tag [] = Inr []"
| "filter_by_tag tag (doc # docs) =
     (case tags_include (get_prop (frontmatter doc) ''tags'') tag of
        Inl e \<Rightarrow> Inl e
      | Inr keep \<Rightarrow>
          (case filter_by_tag tag docs of
             Inl e \<Rightarrow> Inl e
           | Inr rest \<Rightarrow> Inr (if keep then doc # rest else rest)))"

definition list_result :: "Document \<Rightarrow> list_entry" where
  "list_result doc =
     \<lparr>entry_id = doc_id doc, entry_title = title doc, entry_tags = tags_or_empty doc,
      entry_lastModified = lastModified doc\<rparr>"

definition listDocuments :: "server \<Rightarrow> string option \<Rightarrow> js_error + tool_result" where
  "listDocuments s tag =
     (let docs = Map_values (documents s);
          filtered = (case tag of
                        None \<Rightarrow> Inr docs
                      | Some t \<Rightarrow> if t = [] then Inr docs else filter_by_tag t docs)
      in (case filtered of
            Inl e \<Rightarrow> Inl e
          | Inr kept \<Rightarrow> Inr (ListJson (map list_result kept))))"

text \<open>
  A call of a tool, with the arguments the tool's input schema names: \<open>query\<close> and \<open>id\<close>
  are required strings, the others may be absent. \<open>NoArguments\<close> is a request without
  an \<open>arguments\<close> object.
\<close>

datatype tool_call =
    search_documents string "int option"
  | get_document string
  | list_documents "string option"
  | find_similar string "int option"
  | search_by_date "string option" "string option"
  | other_tool string

datatype request = NoArguments string | Call tool_call

text \<open>\<open>args.limit as number || d\<close>: the default for an absent limit and for \<open>0\<close>.\<close>

definition limit_or :: "int option \<Rightarrow> int \<Rightarrow> int" where
  "limit_or limit d = (case limit of None \<Rightarrow> d | Some n \<Rightarrow> if n = 0 then d else n)"

text \<open>The handler of \<open>CallToolRequestSchema\<close>; \<open>Inl\<close> is an error it throws.\<close>

fun CallTool :: "externals \<Rightarrow> server \<Rightarrow> request \<Rightarrow> js_error + tool_result" where
  "CallTool ext s (NoArguments tool) = Inl (Error ''No arguments provided'')"
| "CallTool ext s (Call (search_documents query limit)) =
     Inr (searchDocuments ext s query (limit_or limit 5))"
| "CallTool ext s (Call (get_document i)) = Inr (getDocument s i)"
| "CallTool ext s (Call (list_documents tag)) = listDocuments s tag"
| "CallTool ext s (Call (find_similar i limit)) =
     Inr (findSimilarDocuments s i (limit_or limit 3))"
| "CallTool ext s (Call (search_by_date after_arg before_arg)) =
     Inr (searchByDate ext s after_arg before_arg)"
| "CallTool ext s (Call (other_tool tool)) = Inl (Error (''Unknown tool: '' @ tool))"

section \<open>Example inputs\<close>

text \<open>
  Stand-ins for the libraries, right on the inputs of the examples below: lower-case
  ASCII text without markup or front matter, files directly under the documents folder,
  and the date strings listed in \<open>example_dates\<close>.
\<close>

definition ascii_space :: "char \<Rightarrow> bool" where
  "ascii_space c = (c \<in> set [CHR '' '', CHR 0x09, CHR 0x0A, CHR 0x0B, CHR 0x0C, CHR 0x0D])"

definition example_trim :: "string \<Rightarrow> string" where
  "example_trim s = rev (dropWhile ascii_space (rev (dropWhile ascii_space s)))"

definition word_char :: "char \<Rightarrow> bool" where
  "word_char c =
     (c \<in> set ''abcdefghijklmnopqrstuvwxyzABCDEFGHIJKLMNOPQRSTUVWXYZ0123456789_'')"

fun split_words :: "string \<Rightarrow> string \<Rightarrow> string list" where
  "split_words acc [] = (if acc = [] then [] else [rev acc])"
| "split_words acc (c # cs) =
     (if word_char c then split_words (c # acc) cs
      else if acc = [] then split_words [] cs
      else rev acc # split_words [] cs)"

definition example_lower :: "string \<Rightarrow> string" where
  "example_lower s =
     map (\<lambda>c. if c \<in> set ''ABCDEFGHIJKLMNOPQRSTUVWXYZ''
                then char_of (of_char c + (32 :: nat)) else c) s"

definition example_relative :: "string \<Rightarrow> string \<Rightarrow> string" where
  "example_relative from to = drop (length from + 1) to"

definition example_basename :: "string \<Rightarrow> string \<Rightarrow> string" where
  "example_basename p e =
     (let b = rev (takeWhile (\<lambda>c. c \<noteq> CHR ''/'') (rev p))
      in if prefix (rev e) (rev b) \<and> b \<noteq> e then take (length b - length e) b else b)"

text \<open>
  The time values of the date strings the examples use (midnight UTC); the other string
  they use, \<open>not a date\<close>, is an invalid date.
\<close>

definition example_dates :: "string \<Rightarrow> int option" where
  "example_dates d =
     (if d = ''2024-01-01'' then Some 1704067200000
      else if d = ''2024-02-01'' then Some 1706745600000
      else if d = ''2024-03-01'' then Some 1709251200000
      else None)"

text \<open>
  In place of the fuzzy matcher: the indexed documents whose text contains the query, in
  the order of the index, cut to the limit.
\<close>

definition example_search :: "Fuse \<Rightarrow> string \<Rightarrow> int \<Rightarrow> fuse_result list" where
  "example_search f query limit =
     (let hits = map (\<lambda>doc. \<lparr>item = doc, fuse_score = Num 0\<rparr>)
                   (filter (\<lambda>doc. str_includes (content doc) query) (fuse_docs f))
      in if limit < 0 then hits else take (nat limit) hits)"

definition example_externals :: externals where
  "example_externals =
     \<lparr>matter = (\<lambda>text. Inr ([], text)),
      marked_parse = (\<lambda>markdown. ''<p>'' @ markdown @ ''</p>'' @ [CHR 0x0A]),
      trim = example_trim,
      toLowerCase = example_lower,
      tokenize = split_words [],
      path_relative = example_relative,
      path_basename = example_basename,
      fuse_search = example_search,
      new_Date = example_dates\<rparr>"

text \<open>The server as its constructor leaves it, for the folder \<open>docs\<close>.\<close>

definition example_server :: server where
  "example_server = \<lparr>documents = [], fuse = None, docsPath = ''docs'', tfidf = [], console = []\<rparr>"

definition example_file :: "string \<Rightarrow> int \<Rightarrow> file_entry" where
  "example_file text mt = \<lparr>raw = text, mtime = mt, readable = True\<rparr>"

text \<open>
  Four notes; \<open>a.md\<close> and \<open>c.md\<close> have the same words, \<open>b.md\<close> and \<open>d.md\<close> share one word
  with them.
\<close>

definition example_files :: filesystem where
  "example_files =
     [''docs/a.md'' \<mapsto> example_file ''alpha beta'' 1704067200000,
      ''docs/b.md'' \<mapsto> example_file ''alpha gamma'' 1709251200000,
      ''docs/c.md'' \<mapsto> example_file ''beta alpha'' 1706745600000,
      ''docs/d.md'' \<mapsto> example_file ''delta alpha'' 1704067200000]"

definition example_loaded :: server where
  "example_loaded =
     rebuildSearchIndex
       (foldl (loadDocument example_externals example_files) example_server
          [''docs/a.md'', ''docs/b.md'', ''docs/c.md'', ''docs/d.md''])"

text \<open>Two empty notes.\<close>

definition example_blank :: server where
  "example_blank =
     rebuildSearchIndex
       (foldl (loadDocument example_externals
                 [''docs/x.md'' \<mapsto> example_file [] 1, ''docs/y.md'' \<mapsto> example_file [] 2])
          example_server [''docs/x.md'', ''docs/y.md''])"

text \<open>
  A note is added and modified twice; the three handlers are in flight together, and the
  handler of the first modification is the last to store its record.
\<close>

definition example_world :: world where
  "example_world = \<lparr>files = Map.empty, srv = example_server, tasks = []\<rparr>"

definition example_arrivals :: "action list" where
  "example_arrivals =
     [WriteFile ''docs/note.md'' (example_file ''draft'' 1000),
      AddEvent ''docs/note.md'',
      Resume 0,
      WriteFile ''docs/note.md'' (example_file ''first edit'' 2000),
      ChangeEvent ''docs/note.md'',
      Resume 1,
      WriteFile ''docs/note.md'' (example_file ''second edit'' 3000),
      ChangeEvent ''docs/note.md'',
      Resume 2,
      Resume 0]"

definition example_race :: "action list" where
  "example_race = example_arrivals @ [Resume 2, Resume 1]"

text \<open>The record of a note with the given text.\<close>

definition example_note :: "string \<Rightarrow> string \<Rightarrow> int \<Rightarrow> Document" where
  "example_note file_name text mt =
     build_document example_externals ''docs'' (''docs/'' @ file_name) [] text mt"

section \<open>Facts about the runtime functions\<close>

lemma js_sub_self_not_pos: "\<not> js_pos (js_sub v v)"
  by (cases v) simp_all

lemma js_pos_sub_asym: "js_pos (js_sub b a) \<Longrightarrow> \<not> js_pos (js_sub a b)"
  by (cases a; cases b) simp_all

lemma js_less_Num [simp]: "js_less (Num a) (Num b) = (a < b)"
  by (simp add: js_less_def)

lemma js_less_NaN [simp]: "\<not> js_less NaN y" "\<not> js_less x NaN"
  by (cases y; simp add: js_less_def) (cases x; simp add: js_less_def)

lemma mset_js_insert: "mset (js_insert c x ys) = add_mset x (mset ys)"
  by (induction ys) auto

lemma js_sort_Nil [simp]: "js_sort c [] = []"
  by (simp add: js_sort_def)

lemma js_sort_Cons: "js_sort c (x # xs) = js_insert c x (js_sort c xs)"
  by (simp add: js_sort_def)

lemma mset_js_sort: "mset (js_sort c xs) = mset xs"
  by (induction xs) (auto simp: js_sort_Cons mset_js_insert)

lemma set_js_insert: "set (js_insert c x ys) = insert x (set ys)"
  by (induction ys) auto

lemma set_js_sort: "set (js_sort c xs) = set xs"
  by (induction xs) (auto simp: js_sort_Cons set_js_insert)

lemma length_js_sort: "length (js_sort c xs) = length xs"
  using mset_js_sort [of c xs] by (metis size_mset)

lemma filter_js_insert:
  assumes "\<And>y. P y \<Longrightarrow> P x \<Longrightarrow> \<not> js_pos (c x y)"
  shows "filter P (js_insert c x ys) = (if P x then x # filter P ys else filter P ys)"
  using assms by (induction ys) auto

lemma filter_js_sort:
  assumes "\<And>x y. P x \<Longrightarrow> P y \<Longrightarrow> \<not> js_pos (c x y)"
  shows "filter P (js_sort c xs) = filter P xs"
proof (induction xs)
  case Nil
  show ?case by simp
next
  case (Cons x xs)
  have "filter P (js_insert c x (js_sort c xs))
        = (if P x then x # filter P (js_sort c xs) else filter P (js_sort c xs))"
    by (rule filter_js_insert) (simp add: assms)
  with Cons show ?case by (simp add: js_sort_Cons)
qed

lemma sorted_js_insert:
  assumes tr: "\<And>a b d. a \<in> S \<Longrightarrow> b \<in> S \<Longrightarrow> d \<in> S \<Longrightarrow>
                 \<not> js_pos (c a b) \<Longrightarrow> \<not> js_pos (c b d) \<Longrightarrow> \<not> js_pos (c a d)"
    and asym: "\<And>a b. a \<in> S \<Longrightarrow> b \<in> S \<Longrightarrow> js_pos (c a b) \<Longrightarrow> \<not> js_pos (c b a)"
    and sub: "insert x (set ys) \<subseteq> S"
    and srt: "sorted_wrt (\<lambda>a b. \<not> js_pos (c a b)) ys"
  shows "sorted_wrt (\<lambda>a b. \<not> js_pos (c a b)) (js_insert c x ys)"
  using sub srt
proof (induction ys)
  case Nil
  show ?case by simp
next
  case (Cons y ys)
  show ?case
  proof (cases "js_pos (c x y)")
    case True
    have "\<not> js_pos (c y x)" using asym [of x y] True Cons.prems(1) by auto
    moreover have "sorted_wrt (\<lambda>a b. \<not> js_pos (c a b)) (js_insert c x ys)"
      using Cons by auto
    ultimately show ?thesis using True Cons.prems by (auto simp: set_js_insert)
  next
    case False
    have "\<not> js_pos (c x z)" if "z \<in> set ys" for z
      using tr [of x y z] False Cons.prems that by auto
    then show ?thesis using False Cons.prems by auto
  qed
qed

lemma sorted_js_sort:
  assumes tr: "\<And>a b d. a \<in> set xs \<Longrightarrow> b \<in> set xs \<Longrightarrow> d \<in> set xs \<Longrightarrow>
                 \<not> js_pos (c a b) \<Longrightarrow> \<not> js_pos (c b d) \<Longrightarrow> \<not> js_pos (c a d)"
    and asym: "\<And>a b. a \<in> set xs \<Longrightarrow> b \<in> set xs \<Longrightarrow> js_pos (c a b) \<Longrightarrow> \<not> js_pos (c b a)"
  shows "sorted_wrt (\<lambda>a b. \<not> js_pos (c a b)) (js_sort c xs)"
proof -
  have "set ys \<subseteq> set xs \<Longrightarrow> sorted_wrt (\<lambda>a b. \<not> js_pos (c a b)) (js_sort c ys)" for ys
  proof (induction ys)
    case Nil
    show ?case by simp
  next
    case (Cons y ys)
    have "sorted_wrt (\<lambda>a b. \<not> js_pos (c a b)) (js_insert c y (js_sort c ys))"
    proof (rule sorted_js_insert [where S = "set xs"])
      show "insert y (set (js_sort c ys)) \<subseteq> set xs"
        using Cons.prems by (simp add: set_js_sort)
      show "sorted_wrt (\<lambda>a b. \<not> js_pos (c a b)) (js_sort c ys)"
        using Cons by simp
    qed (use tr asym in blast)+
    then show ?case by (simp add: js_sort_Cons)
  qed
  then show ?thesis by simp
qed

lemma prefix_filter_take: "prefix (filter P (take n xs)) (filter P xs)"
proof -
  have "filter P xs = filter P (take n xs) @ filter P (drop n xs)"
    by (metis append_take_drop_id filter_append)
  then show ?thesis by (simp add: prefix_def)
qed

lemma slice0_pos: "0 \<le> e \<Longrightarrow> slice0 xs e = take (nat e) xs"
  by (simp add: slice0_def)

section \<open>Facts about similarity and ranking\<close>

lemma filter_mem_Int: "{x \<in> A. x \<in> B} = A \<inter> B"
  by auto

lemma calculateSimilarity_Some:
  "tokens a = Some t1 \<Longrightarrow> tokens b = Some t2 \<Longrightarrow>
   calculateSimilarity a b = size_div (card (set t1 \<inter> set t2)) (card (set t1 \<union> set t2))"
  by (simp add: calculateSimilarity_def filter_mem_Int Let_def)

lemma calculateSimilarity_None:
  "tokens a = None \<or> tokens b = None \<Longrightarrow> calculateSimilarity a b = Num 0"
  by (auto simp: calculateSimilarity_def split: option.splits)

lemma calculateSimilarity_values:
  "(\<forall>d. \<exists>r. calculateSimilarity t d = Num r)
   \<or> (\<forall>d. calculateSimilarity t d = Num 0 \<or> calculateSimilarity t d = NaN)"
proof (cases "tokens t")
  case None
  then show ?thesis by (simp add: calculateSimilarity_None)
next
  case (Some ts)
  show ?thesis
  proof (cases "ts = []")
    case True
    have "calculateSimilarity t d = Num 0 \<or> calculateSimilarity t d = NaN" for d
    proof (cases "tokens d")
      case None
      then show ?thesis by (simp add: calculateSimilarity_None)
    next
      case (Some t2)
      with \<open>tokens t = Some ts\<close> True show ?thesis
        by (simp add: calculateSimilarity_Some size_div_def)
    qed
    then show ?thesis by blast
  next
    case False
    have "\<exists>r. calculateSimilarity t d = Num r" for d
    proof (cases "tokens d")
      case None
      then show ?thesis by (simp add: calculateSimilarity_None)
    next
      case (Some t2)
      from False have "card (set ts \<union> set t2) \<noteq> 0" by simp
      with Some \<open>tokens t = Some ts\<close> show ?thesis
        by (simp add: calculateSimilarity_Some size_div_def)
    qed
    then show ?thesis by blast
  qed
qed

lemma similarity_scores_ids:
  "map sim_id (similarity_scores i t m) = filter (\<lambda>k. k \<noteq> i) (map fst m)"
  by (induction m) auto

lemma similarity_scores_score:
  "e \<in> set (similarity_scores i t m) \<Longrightarrow> \<exists>d. sim_score e = calculateSimilarity t d"
  by (induction m) (auto split: if_splits)

lemma sorted_scores:
  "sorted_wrt (\<lambda>a b. \<not> js_less (sim_score a) (sim_score b))
     (js_sort by_score_desc (similarity_scores i t m))"
proof -
  let ?xs = "similarity_scores i t m"
  have vals: "(\<forall>e \<in> set ?xs. \<exists>r. sim_score e = Num r)
              \<or> (\<forall>e \<in> set ?xs. sim_score e = Num 0 \<or> sim_score e = NaN)"
    using calculateSimilarity_values [of t] similarity_scores_score [of _ i t m]
    by metis
  have tr: "\<not> js_pos (by_score_desc a d)"
    if ma: "a \<in> set ?xs" and mb: "b \<in> set ?xs" and md: "d \<in> set ?xs"
      and ab: "\<not> js_pos (by_score_desc a b)" and bd: "\<not> js_pos (by_score_desc b d)" for a b d
    using vals
  proof
    assume nums: "\<forall>e \<in> set ?xs. \<exists>r. sim_score e = Num r"
    from nums ma obtain ra where "sim_score a = Num ra" by blast
    moreover from nums mb obtain rb where "sim_score b = Num rb" by blast
    moreover from nums md obtain rd where "sim_score d = Num rd" by blast
    ultimately show ?thesis using ab bd by (simp add: by_score_desc_def)
  next
    assume "\<forall>e \<in> set ?xs. sim_score e = Num 0 \<or> sim_score e = NaN"
    then have "sim_score a = Num 0 \<or> sim_score a = NaN" "sim_score d = Num 0 \<or> sim_score d = NaN"
      using ma md by blast+
    then show ?thesis by (auto simp: by_score_desc_def)
  qed
  have "sorted_wrt (\<lambda>a b. \<not> js_pos (by_score_desc a b)) (js_sort by_score_desc ?xs)"
    by (rule sorted_js_sort) (use tr in blast, simp add: by_score_desc_def js_pos_sub_asym)
  then show ?thesis by (simp add: by_score_desc_def js_less_def)
qed

lemma stable_scores:
  "filter (\<lambda>e. sim_score e = v) (js_sort by_score_desc xs) = filter (\<lambda>e. sim_score e = v) xs"
  by (rule filter_js_sort) (simp add: by_score_desc_def js_sub_self_not_pos)

text \<open>
  Claim C6: the similarity of two documents is the size of the intersection of their token
  sets over the size of the union, a value between 0 and 1, and 0 when either token set is
  empty. Two empty notes have empty token lists, which pass the test for missing tokens,
  and their similarity is \<open>0 / 0\<close>: not a number.
\<close>

theorem similarity_of_empty_notes:
  "tokens (example_note ''x.md'' [] 1) = Some []
   \<and> tokens (example_note ''y.md'' [] 2) = Some []
   \<and> calculateSimilarity (example_note ''x.md'' [] 1) (example_note ''y.md'' [] 2) = NaN"
  by code_simp

text \<open>
  Where the union is not empty the value is the Jaccard index, between 0 and 1; token sets
  \<open>{alpha, beta}\<close> and \<open>{alpha, gamma}\<close> give one third.
\<close>

lemma calculateSimilarity_jaccard:
  assumes "tokens a = Some t1" and "tokens b = Some t2" and "set t1 \<union> set t2 \<noteq> {}"
  shows "calculateSimilarity a b
           = Num (of_nat (card (set t1 \<inter> set t2)) / of_nat (card (set t1 \<union> set t2)))"
    and "(0 :: rat) \<le> of_nat (card (set t1 \<inter> set t2)) / of_nat (card (set t1 \<union> set t2))"
    and "of_nat (card (set t1 \<inter> set t2)) / of_nat (card (set t1 \<union> set t2)) \<le> (1 :: rat)"
proof -
  have ne: "card (set t1 \<union> set t2) \<noteq> 0"
    using assms(3) by simp
  with assms(1,2) show "calculateSimilarity a b
           = Num (of_nat (card (set t1 \<inter> set t2)) / of_nat (card (set t1 \<union> set t2)))"
    by (simp add: calculateSimilarity_Some size_div_def)
  from ne have pos: "0 < card (set t1 \<union> set t2)"
    by (rule neq0_conv [THEN iffD1])
  show "(0 :: rat) \<le> of_nat (card (set t1 \<inter> set t2)) / of_nat (card (set t1 \<union> set t2))"
    by simp
  have "card (set t1 \<inter> set t2) \<le> card (set t1 \<union> set t2)"
    by (rule card_mono) auto
  then show "of_nat (card (set t1 \<inter> set t2)) / of_nat (card (set t1 \<union> set t2)) \<le> (1 :: rat)"
    using pos by (simp add: divide_le_eq_1)
qed

lemma similarity_alpha_beta_gamma:
  "calculateSimilarity (example_note ''a.md'' ''alpha beta'' 1) (example_note ''b.md'' ''alpha gamma'' 2) = Num (1 / 3)"
  by code_simp

text \<open>
  Claim C9: the similarity of a document with itself is 1 when its token list is not
  empty, and the similarity of two documents does not depend on their order.
\<close>

theorem similarity_self_and_symmetric:
  "(tokens a = Some ts \<and> ts \<noteq> [] \<longrightarrow> calculateSimilarity a a = Num 1)
   \<and> calculateSimilarity a b = calculateSimilarity b a"
proof
  show "tokens a = Some ts \<and> ts \<noteq> [] \<longrightarrow> calculateSimilarity a a = Num 1"
  proof
    assume h: "tokens a = Some ts \<and> ts \<noteq> []"
    then have "card (set ts) \<noteq> 0" by simp
    with h show "calculateSimilarity a a = Num 1"
      by (simp add: calculateSimilarity_Some size_div_def)
  qed
next
  show "calculateSimilarity a b = calculateSimilarity b a"
  proof (cases "tokens a")
    case None
    then show ?thesis by (simp add: calculateSimilarity_None)
  next
    case (Some t1)
    show ?thesis
    proof (cases "tokens b")
      case None
      then show ?thesis by (simp add: calculateSimilarity_None)
    next
      case (Some t2)
      with \<open>tokens a = Some t1\<close> show ?thesis
        by (simp add: calculateSimilarity_Some Int_commute Un_commute)
    qed
  qed
qed

text \<open>
  Claim C9 on the notes \<open>a.md\<close> and \<open>b.md\<close>.
\<close>

theorem similarity_self_and_symmetric_witness:
  "tokens (example_note ''a.md'' ''alpha beta'' 1) = Some [''alpha'', ''beta'']
   \<and> calculateSimilarity (example_note ''a.md'' ''alpha beta'' 1)
        (example_note ''a.md'' ''alpha beta'' 1) = Num 1
   \<and> calculateSimilarity (example_note ''a.md'' ''alpha beta'' 1)
        (example_note ''b.md'' ''alpha gamma'' 2)
      = calculateSimilarity (example_note ''b.md'' ''alpha gamma'' 2)
          (example_note ''a.md'' ''alpha beta'' 1)"
proof -
  have h: "tokens (example_note ''a.md'' ''alpha beta'' 1) = Some [''alpha'', ''beta'']"
    by code_simp
  note t = similarity_self_and_symmetric
    [of "example_note ''a.md'' ''alpha beta'' 1" "[''alpha'', ''beta'']"
        "example_note ''b.md'' ''alpha gamma'' 2"]
  from t h have 1: "calculateSimilarity (example_note ''a.md'' ''alpha beta'' 1)
        (example_note ''a.md'' ''alpha beta'' 1) = Num 1"
    by simp
  from t have 2: "calculateSimilarity (example_note ''a.md'' ''alpha beta'' 1)
        (example_note ''b.md'' ''alpha gamma'' 2)
      = calculateSimilarity (example_note ''b.md'' ''alpha gamma'' 2)
          (example_note ''a.md'' ''alpha beta'' 1)"
    by (rule conjunct2)
  from h 1 2 show ?thesis by (intro conjI)
qed

text \<open>
  Claim C7: for a stored target and a positive limit, \<open>findSimilarDocuments\<close> replies
  with a list that does not hold the target, has at most \<open>limit\<close> entries, and in which
  no entry has a smaller score than a later one; the candidates are scored in the
  iteration order of the store, and the entries of any one score are the first of that
  score among the candidates, in the same order.
\<close>

theorem findSimilarDocuments_ranking:
  assumes stored: "Map_get (documents s) i = Some targetDoc"
    and limit: "0 < limit"
  defines "candidates \<equiv> similarity_scores i targetDoc (documents s)"
  defines "topResults \<equiv> take (nat limit) (js_sort by_score_desc candidates)"
  shows "findSimilarDocuments s i limit = SimilarJson topResults
    \<and> i \<notin> set (map sim_id topResults)
    \<and> int (length topResults) \<le> limit
    \<and> sorted_wrt (\<lambda>a b. \<not> js_less (sim_score a) (sim_score b)) topResults
    \<and> map sim_id candidates = filter (\<lambda>k. k \<noteq> i) (map fst (documents s))
    \<and> prefix (filter (\<lambda>e. sim_score e = v) topResults) (filter (\<lambda>e. sim_score e = v) candidates)"
proof (intro conjI)
  show "findSimilarDocuments s i limit = SimilarJson topResults"
    using stored limit
    by (simp add: findSimilarDocuments_def topResults_def candidates_def slice0_pos Let_def)
  have "set topResults \<subseteq> set candidates"
    unfolding topResults_def using set_take_subset [of "nat limit" "js_sort by_score_desc candidates"]
    by (simp add: set_js_sort)
  moreover have "i \<notin> set (map sim_id candidates)"
    by (simp add: candidates_def similarity_scores_ids)
  ultimately show "i \<notin> set (map sim_id topResults)" by auto
  show "int (length topResults) \<le> limit"
    using limit by (simp add: topResults_def)
  show "sorted_wrt (\<lambda>a b. \<not> js_less (sim_score a) (sim_score b)) topResults"
    unfolding topResults_def candidates_def by (rule sorted_wrt_take) (rule sorted_scores)
  show "map sim_id candidates = filter (\<lambda>k. k \<noteq> i) (map fst (documents s))"
    by (simp add: candidates_def similarity_scores_ids)
  have "prefix (filter (\<lambda>e. sim_score e = v) topResults)
          (filter (\<lambda>e. sim_score e = v) (js_sort by_score_desc candidates))"
    unfolding topResults_def by (rule prefix_filter_take)
  then show "prefix (filter (\<lambda>e. sim_score e = v) topResults) (filter (\<lambda>e. sim_score e = v) candidates)"
    by (simp add: stable_scores)
qed

text \<open>
  Claim C7 on the four notes, for \<open>a.md\<close> and a limit of 2: \<open>c.md\<close> has the same words,
  and of \<open>b.md\<close> and \<open>d.md\<close>, which tie at one third, the earlier in the store is kept.
\<close>

theorem findSimilarDocuments_ranking_witness:
  "Map_get (documents example_loaded) ''a.md'' = Some (example_note ''a.md'' ''alpha beta'' 1704067200000)
   \<and> (0 :: int) < 2
   \<and> findSimilarDocuments example_loaded ''a.md'' 2
      = SimilarJson
          [\<lparr>sim_id = ''c.md'', sim_score = Num 1, sim_title = Str ''c''\<rparr>,
           \<lparr>sim_id = ''b.md'', sim_score = Num (1 / 3), sim_title = Str ''b''\<rparr>]
   \<and> ''a.md'' \<notin> set (map sim_id (take (nat 2) (js_sort by_score_desc
         (similarity_scores ''a.md'' (example_note ''a.md'' ''alpha beta'' 1704067200000)
            (documents example_loaded)))))
   \<and> prefix (filter (\<lambda>e. sim_score e = Num (1 / 3)) (take (nat 2) (js_sort by_score_desc
         (similarity_scores ''a.md'' (example_note ''a.md'' ''alpha beta'' 1704067200000)
            (documents example_loaded)))))
        (filter (\<lambda>e. sim_score e = Num (1 / 3))
           (similarity_scores ''a.md'' (example_note ''a.md'' ''alpha beta'' 1704067200000)
              (documents example_loaded)))"
proof -
  have h1: "Map_get (documents example_loaded) ''a.md''
            = Some (example_note ''a.md'' ''alpha beta'' 1704067200000)"
    by code_simp
  have h2: "(0 :: int) < 2" by simp
  have ev: "take (nat 2) (js_sort by_score_desc
         (similarity_scores ''a.md'' (example_note ''a.md'' ''alpha beta'' 1704067200000)
            (documents example_loaded)))
     = [\<lparr>sim_id = ''c.md'', sim_score = Num 1, sim_title = Str ''c''\<rparr>,
           \<lparr>sim_id = ''b.md'', sim_score = Num (1 / 3), sim_title = Str ''b''\<rparr>]"
    by code_simp
  note t = findSimilarDocuments_ranking [OF h1 h2, of "Num (1 / 3)"]
  from t have c1: "findSimilarDocuments example_loaded ''a.md'' 2
      = SimilarJson
          [\<lparr>sim_id = ''c.md'', sim_score = Num 1, sim_title = Str ''c''\<rparr>,
           \<lparr>sim_id = ''b.md'', sim_score = Num (1 / 3), sim_title = Str ''b''\<rparr>]"
    by (simp only: ev)
  from t h1 h2 c1 show ?thesis by blast
qed

section \<open>Facts about the search by date\<close>

lemma by_date_desc_pos: "js_pos (by_date_desc a b) = (lastModified a < lastModified b)"
  by (simp add: by_date_desc_def)

lemma sorted_date_docs:
  "sorted_wrt (\<lambda>x y. lastModified y \<le> lastModified x) (js_sort by_date_desc docs)"
proof -
  have "sorted_wrt (\<lambda>a b. \<not> js_pos (by_date_desc a b)) (js_sort by_date_desc docs)"
    by (rule sorted_js_sort) (simp_all add: by_date_desc_pos)
  then show ?thesis by (simp add: by_date_desc_pos not_less)
qed

lemma date_filter_after_valid:
  "after_arg = None \<or> (after_arg = Some a \<and> a \<noteq> [] \<and> new_Date ext a = Some ta) \<Longrightarrow>
   date_filter_after ext after_arg docs
   = filter (\<lambda>d. after_arg \<noteq> None \<longrightarrow> ta < lastModified d) docs"
  by (auto simp: date_filter_after_def)

lemma date_filter_before_valid:
  "before_arg = None \<or> (before_arg = Some b \<and> b \<noteq> [] \<and> new_Date ext b = Some tb) \<Longrightarrow>
   date_filter_before ext before_arg docs
   = filter (\<lambda>d. before_arg \<noteq> None \<longrightarrow> lastModified d < tb) docs"
  by (auto simp: date_filter_before_def)

lemma date_filter_after_invalid:
  "a \<noteq> [] \<Longrightarrow> new_Date ext a = None \<Longrightarrow> date_filter_after ext (Some a) docs = []"
  by (simp add: date_filter_after_def)

lemma date_filter_before_invalid:
  "b \<noteq> [] \<Longrightarrow> new_Date ext b = None \<Longrightarrow> date_filter_before ext (Some b) docs = []"
  by (simp add: date_filter_before_def)

lemma date_filter_before_Nil: "date_filter_before ext before_arg [] = []"
  by (simp add: date_filter_before_def split: option.splits)

text \<open>
  Claim C8: with bounds that are absent or non-empty strings of valid dates,
  \<open>searchByDate\<close> replies with exactly the documents modified strictly after \<open>after\<close> and
  strictly before \<open>before\<close>, latest first; with equal bounds the list is empty.
\<close>

theorem searchByDate_strict_bounds:
  assumes wa: "after_arg = None \<or> (after_arg = Some a \<and> a \<noteq> [] \<and> new_Date ext a = Some ta)"
    and wb: "before_arg = None \<or> (before_arg = Some b \<and> b \<noteq> [] \<and> new_Date ext b = Some tb)"
  shows "searchByDate ext s after_arg before_arg
           = DateJson (map date_result (date_docs ext s after_arg before_arg))
    \<and> mset (date_docs ext s after_arg before_arg)
        = mset (filter (\<lambda>d. (after_arg \<noteq> None \<longrightarrow> ta < lastModified d)
                          \<and> (before_arg \<noteq> None \<longrightarrow> lastModified d < tb))
                  (Map_values (documents s)))
    \<and> sorted_wrt (\<lambda>x y. lastModified y \<le> lastModified x) (date_docs ext s after_arg before_arg)
    \<and> (after_arg \<noteq> None \<and> before_arg = after_arg
         \<longrightarrow> searchByDate ext s after_arg before_arg = DateJson [])"
proof (intro conjI)
  show "searchByDate ext s after_arg before_arg
          = DateJson (map date_result (date_docs ext s after_arg before_arg))"
    by (simp add: searchByDate_def)
  show kept: "mset (date_docs ext s after_arg before_arg)
        = mset (filter (\<lambda>d. (after_arg \<noteq> None \<longrightarrow> ta < lastModified d)
                          \<and> (before_arg \<noteq> None \<longrightarrow> lastModified d < tb))
                  (Map_values (documents s)))"
    by (simp add: date_docs_def mset_js_sort date_filter_after_valid [OF wa]
        date_filter_before_valid [OF wb] conj_commute)
  show "sorted_wrt (\<lambda>x y. lastModified y \<le> lastModified x) (date_docs ext s after_arg before_arg)"
    by (simp add: date_docs_def sorted_date_docs)
  show "after_arg \<noteq> None \<and> before_arg = after_arg
          \<longrightarrow> searchByDate ext s after_arg before_arg = DateJson []"
  proof
    assume eq: "after_arg \<noteq> None \<and> before_arg = after_arg"
    with wa wb have "ta = tb" by auto
    with eq have "mset (date_docs ext s after_arg before_arg) = {#}"
      unfolding kept by (auto simp: filter_empty_conv)
    then show "searchByDate ext s after_arg before_arg = DateJson []"
      by (simp add: searchByDate_def)
  qed
qed

text \<open>
  Claim C8 on the four notes: only \<open>b.md\<close> was modified after 1 February 2024 (\<open>c.md\<close> at
  that very time), and equal bounds give nothing.
\<close>

theorem searchByDate_strict_bounds_witness:
  "new_Date example_externals ''2024-02-01'' = Some 1706745600000
   \<and> searchByDate example_externals example_loaded (Some ''2024-02-01'') None
       = DateJson [\<lparr>date_id = ''b.md'', date_title = Str ''b'',
                    date_lastModified = 1709251200000, date_excerpt = ''alpha gamma...''\<rparr>]
   \<and> mset (date_docs example_externals example_loaded (Some ''2024-02-01'') None)
       = mset (filter (\<lambda>d. ((Some ''2024-02-01'' :: string option) \<noteq> None \<longrightarrow> 1706745600000 < lastModified d)
                          \<and> ((None :: string option) \<noteq> None \<longrightarrow> lastModified d < 0))
                  (Map_values (documents example_loaded)))
   \<and> searchByDate example_externals example_loaded (Some ''2024-02-01'') (Some ''2024-02-01'')
       = DateJson []"
proof -
  have d: "new_Date example_externals ''2024-02-01'' = Some 1706745600000"
    by code_simp
  have wa: "(Some ''2024-02-01'' :: string option) = None
      \<or> (Some ''2024-02-01'' = Some ''2024-02-01'' \<and> ''2024-02-01'' \<noteq> []
          \<and> new_Date example_externals ''2024-02-01'' = Some 1706745600000)"
    using d by simp
  have wn: "(None :: string option) = None
      \<or> ((None :: string option) = Some [] \<and> [] \<noteq> ([] :: string)
          \<and> new_Date example_externals [] = Some 0)"
    by simp
  have ev: "map date_result (date_docs example_externals example_loaded (Some ''2024-02-01'') None)
      = [\<lparr>date_id = ''b.md'', date_title = Str ''b'',
                    date_lastModified = 1709251200000, date_excerpt = ''alpha gamma...''\<rparr>]"
    by code_simp
  note t1 = searchByDate_strict_bounds [OF wa wn, of example_loaded]
  note t2 = searchByDate_strict_bounds [OF wa wa, of example_loaded]
  from t1 have c1: "searchByDate example_externals example_loaded (Some ''2024-02-01'') None
       = DateJson [\<lparr>date_id = ''b.md'', date_title = Str ''b'',
                    date_lastModified = 1709251200000, date_excerpt = ''alpha gamma...''\<rparr>]"
    by (simp only: ev)
  from t1 have c2: "mset (date_docs example_externals example_loaded (Some ''2024-02-01'') None)
       = mset (filter (\<lambda>d. ((Some ''2024-02-01'' :: string option) \<noteq> None \<longrightarrow> 1706745600000 < lastModified d)
                          \<and> ((None :: string option) \<noteq> None \<longrightarrow> lastModified d < 0))
                  (Map_values (documents example_loaded)))"
    by blast
  from t2 have c3: "searchByDate example_externals example_loaded (Some ''2024-02-01'') (Some ''2024-02-01'')
       = DateJson []"
    by blast
  from d c1 c2 c3 show ?thesis by (intro conjI)
qed

text \<open>
  Claim C10 says that a call of \<open>search_by_date\<close> with neither bound gives every document
  rather than an error. A request that names the tool and carries no \<open>arguments\<close> object
  has neither bound, and the handler throws before the tool runs.
\<close>

theorem no_arguments_counterexample:
  "CallTool example_externals example_loaded (NoArguments ''search_by_date'')
     = Inl (Error ''No arguments provided'')"
  by simp

text \<open>
  Claim C10, amended: when the request carries an \<open>arguments\<close> object with neither bound,
  \<open>search_by_date\<close> replies with every document of the store, latest first, and the
  handler passes the reply on; a request without an \<open>arguments\<close> object is answered
  with the error \<open>No arguments provided\<close>, whatever the tool and the store.
\<close>

theorem searchByDate_without_bounds:
  "searchByDate ext s None None = DateJson (map date_result (date_docs ext s None None))
   \<and> mset (date_docs ext s None None) = mset (Map_values (documents s))
   \<and> sorted_wrt (\<lambda>x y. lastModified y \<le> lastModified x) (date_docs ext s None None)
   \<and> CallTool ext s (Call (search_by_date None None)) = Inr (searchByDate ext s None None)
   \<and> CallTool ext s (NoArguments tool) = Inl (Error ''No arguments provided'')"
  by (simp add: searchByDate_def date_docs_def date_filter_after_def date_filter_before_def
      mset_js_sort sorted_date_docs)

text \<open>
  Claim C10, amended, on the four notes.
\<close>

theorem searchByDate_without_bounds_witness:
  "CallTool example_externals example_loaded (Call (search_by_date None None))
     = Inr (DateJson (map date_result (date_docs example_externals example_loaded None None)))
   \<and> map date_id (map date_result (date_docs example_externals example_loaded None None))
     = [''b.md'', ''c.md'', ''a.md'', ''d.md'']"
proof -
  have ev: "map date_id (map date_result (date_docs example_externals example_loaded None None))
     = [''b.md'', ''c.md'', ''a.md'', ''d.md'']"
    by code_simp
  from searchByDate_without_bounds [of example_externals example_loaded]
  have "CallTool example_externals example_loaded (Call (search_by_date None None))
     = Inr (DateJson (map date_result (date_docs example_externals example_loaded None None)))"
    by simp
  with ev show ?thesis by (intro conjI)
qed

text \<open>
  Claim C4 says that a date that does not parse is rejected with a validation error. The
  handler replies to \<open>not a date\<close> with an ordinary, empty list.
\<close>

theorem malformed_date_counterexample:
  "new_Date example_externals ''not a date'' = None
   \<and> CallTool example_externals example_loaded (Call (search_by_date (Some ''not a date'') None))
       = Inr (DateJson [])"
  by code_simp

text \<open>
  Claim C4, amended: when \<open>after\<close> or \<open>before\<close> is a non-empty string that is not a date,
  nothing is validated; every comparison with the invalid date is false, and the reply
  is the ordinary empty list, not an error.
\<close>

theorem searchByDate_malformed_date:
  assumes "(after_arg = Some a \<and> a \<noteq> [] \<and> new_Date ext a = None)
         \<or> (before_arg = Some b \<and> b \<noteq> [] \<and> new_Date ext b = None)"
  shows "searchByDate ext s after_arg before_arg = DateJson []
    \<and> CallTool ext s (Call (search_by_date after_arg before_arg)) = Inr (DateJson [])"
proof -
  have "date_docs ext s after_arg before_arg = []"
    using assms
    by (auto simp: date_docs_def date_filter_after_invalid date_filter_before_invalid
        date_filter_before_Nil)
  then show ?thesis by (simp add: searchByDate_def)
qed

text \<open>
  Claim C4, amended, with a valid \<open>after\<close> and a malformed \<open>before\<close>.
\<close>

theorem searchByDate_malformed_date_witness:
  "new_Date example_externals ''not a date'' = None
   \<and> searchByDate example_externals example_loaded (Some ''2024-01-01'') (Some ''not a date'')
       = DateJson []
   \<and> CallTool example_externals example_loaded
        (Call (search_by_date (Some ''2024-01-01'') (Some ''not a date''))) = Inr (DateJson [])"
proof -
  have d: "new_Date example_externals ''not a date'' = None"
    by code_simp
  have h: "((Some ''2024-01-01'' :: string option) = Some [] \<and> [] \<noteq> ([] :: string)
              \<and> new_Date example_externals [] = None)
         \<or> (Some ''not a date'' = Some ''not a date'' \<and> ''not a date'' \<noteq> []
              \<and> new_Date example_externals ''not a date'' = None)"
    using d by simp
  from searchByDate_malformed_date [OF h, of example_loaded] d show ?thesis
    by (intro conjI) simp_all
qed

section \<open>Facts about the store\<close>

lemma Map_get_set_same: "Map_get (Map_set k v m) k = Some v"
  by (induction m) (auto simp: Map_get_def)

lemma Map_get_set_other: "k' \<noteq> k \<Longrightarrow> Map_get (Map_set k v m) k' = Map_get m k'"
  by (induction m) (auto simp: Map_get_def)

lemma Map_get_delete_same: "Map_get (Map_delete k m) k = None"
  by (induction m) (auto simp: Map_get_def Map_delete_def)

section \<open>Facts about the index\<close>

lemma documents_rebuildSearchIndex [simp]: "documents (rebuildSearchIndex s) = documents s"
  by (simp add: rebuildSearchIndex_def)

lemma docsPath_rebuildSearchIndex [simp]: "docsPath (rebuildSearchIndex s) = docsPath s"
  by (simp add: rebuildSearchIndex_def)

lemma console_rebuildSearchIndex [simp]: "console (rebuildSearchIndex s) = console s"
  by (simp add: rebuildSearchIndex_def)

text \<open>
  Claim C2 says that the title has the highest weight. In the index the weight of the
  title is below the weight of the text.
\<close>

theorem title_weight_counterexample:
  "the (key_weight (rebuildSearchIndex example_server) ''title'')
     < the (key_weight (rebuildSearchIndex example_server) ''content'')"
  by (simp add: key_weight_def rebuildSearchIndex_def)

text \<open>
  Claim C2, amended: whatever the documents, the rebuilt index weighs the text of a
  document highest (0.5), its title second (0.3) and its tags lowest (0.2).
\<close>

theorem rebuildSearchIndex_weights:
  "map_option keys (fuse (rebuildSearchIndex s))
     = Some [(''title'', 3 / 10), (''content'', 5 / 10), (''frontmatter.tags'', 2 / 10)]
   \<and> key_weight (rebuildSearchIndex s) ''content'' = Some (5 / 10)
   \<and> key_weight (rebuildSearchIndex s) ''title'' = Some (3 / 10)
   \<and> key_weight (rebuildSearchIndex s) ''frontmatter.tags'' = Some (2 / 10)
   \<and> the (key_weight (rebuildSearchIndex s) ''frontmatter.tags'')
       < the (key_weight (rebuildSearchIndex s) ''title'')
   \<and> the (key_weight (rebuildSearchIndex s) ''title'')
       < the (key_weight (rebuildSearchIndex s) ''content'')"
  by (simp add: key_weight_def rebuildSearchIndex_def)

text \<open>
  Claim C2, amended, on the index of the four notes.
\<close>

theorem rebuildSearchIndex_weights_witness:
  "key_weight (rebuildSearchIndex example_loaded) ''content'' = Some (5 / 10)
   \<and> key_weight (rebuildSearchIndex example_loaded) ''title'' = Some (3 / 10)
   \<and> key_weight (rebuildSearchIndex example_loaded) ''frontmatter.tags'' = Some (2 / 10)"
  using rebuildSearchIndex_weights [of example_loaded] by blast

section \<open>A read that fails\<close>

text \<open>
  Claim C3 says that a read that fails leaves no record for the document, as a removal
  would. After a change event for \<open>a.md\<close> whose file is gone, the store still holds the
  record of \<open>a.md\<close>; after a removal it holds none.
\<close>

theorem failed_read_counterexample:
  "readFile Map.empty ''docs/a.md'' = Inl (SystemError ''ENOENT'')
   \<and> Map_get (documents (on_change example_externals Map.empty example_loaded ''docs/a.md'')) ''a.md''
       = Some (example_note ''a.md'' ''alpha beta'' 1704067200000)
   \<and> Map_get (documents (on_unlink example_externals example_loaded ''docs/a.md'')) ''a.md'' = None"
  by code_simp

lemma loadDocument_read_fails:
  "readFile fs filePath = Inl e \<Longrightarrow>
   loadDocument ext fs s filePath = s\<lparr>console := console s @ [ErrorLoadingDocument filePath e]\<rparr>"
  by (simp add: loadDocument_def load_read_def load_failed_def)

text \<open>
  Claim C3, amended: when the read of a file fails, the error is logged and not thrown,
  and the store is left as it was: a record it held for the document stays, and none is
  made.
\<close>

theorem failed_read_keeps_store:
  assumes "readFile fs filePath = Inl e"
  shows "loadDocument ext fs s filePath
           = s\<lparr>console := console s @ [ErrorLoadingDocument filePath e]\<rparr>
    \<and> documents (on_add ext fs s filePath) = documents s
    \<and> documents (on_change ext fs s filePath) = documents s
    \<and> console (on_change ext fs s filePath)
        = console s @ [DocumentChanged filePath, ErrorLoadingDocument filePath e]
    \<and> Map_get (documents (on_change ext fs s filePath)) i = Map_get (documents s) i"
  using assms
  by (simp add: loadDocument_read_fails on_add_def on_change_def console_error_def)

text \<open>
  Claim C3, amended, for the change event of a file that is gone.
\<close>

theorem failed_read_keeps_store_witness:
  "readFile Map.empty ''docs/a.md'' = Inl (SystemError ''ENOENT'')
   \<and> documents (on_change example_externals Map.empty example_loaded ''docs/a.md'')
       = documents example_loaded
   \<and> console (on_change example_externals Map.empty example_loaded ''docs/a.md'')
       = console example_loaded
           @ [DocumentChanged ''docs/a.md'',
              ErrorLoadingDocument ''docs/a.md'' (SystemError ''ENOENT'')]"
proof -
  have h: "readFile Map.empty ''docs/a.md'' = Inl (SystemError ''ENOENT'')"
    by (simp add: readFile_def)
  from failed_read_keeps_store [OF h, of example_externals example_loaded] h
  show ?thesis by blast
qed

section \<open>Search with a limit\<close>

text \<open>
  Claim C5 says that a limit of 0 or below is a validation error. On an index without
  documents the handler replies to the limits 0 and -1 with an ordinary list.
\<close>

theorem limit_counterexample:
  "CallTool example_externals (rebuildSearchIndex example_server)
      (Call (search_documents ''alpha'' (Some 0))) = Inr (SearchJson [])
   \<and> CallTool example_externals (rebuildSearchIndex example_server)
      (Call (search_documents ''alpha'' (Some (- 1)))) = Inr (SearchJson [])"
  by code_simp

text \<open>
  Claim C5, amended: \<open>search_documents\<close> never replies with a validation error. A limit
  of 0 is replaced by the default 5; any other limit, negative ones too, goes to the
  search of the index as it is, and the reply has one entry for each hit of that search:
  at most \<open>limit\<close> entries for a positive limit when the library keeps to its limit.
\<close>

theorem search_documents_limit:
  assumes lib: "\<forall>f' q' n'. 0 < n' \<longrightarrow> int (length (fuse_search ext f' q' n')) \<le> n'"
  shows "CallTool ext s (Call (search_documents q limit))
           = Inr (searchDocuments ext s q (limit_or limit 5))
    \<and> CallTool ext s (Call (search_documents q (Some 0)))
        = CallTool ext s (Call (search_documents q (Some 5)))
    \<and> (fuse s = Some f \<and> n \<noteq> 0 \<longrightarrow>
         CallTool ext s (Call (search_documents q (Some n)))
           = Inr (SearchJson (formattedResults ext f q n))
         \<and> length (formattedResults ext f q n) = length (fuse_search ext f q n))
    \<and> (0 < n \<longrightarrow> int (length (formattedResults ext f q n)) \<le> n)"
  using lib by (simp add: limit_or_def searchDocuments_def formattedResults_def)

lemma example_search_limit:
  "\<forall>f' q' n'. 0 < n' \<longrightarrow> int (length (fuse_search example_externals f' q' n')) \<le> n'"
  by (auto simp: example_externals_def example_search_def Let_def min_def)

text \<open>
  Claim C5, amended, for the query \<open>alpha\<close> with limit 2 on the four notes.
\<close>

theorem search_documents_limit_witness:
  "fuse example_loaded \<noteq> None
   \<and> CallTool example_externals example_loaded (Call (search_documents ''alpha'' (Some 2)))
       = Inr (SearchJson (formattedResults example_externals (the (fuse example_loaded)) ''alpha'' 2))
   \<and> map hit_id (formattedResults example_externals (the (fuse example_loaded)) ''alpha'' 2)
       = [''a.md'', ''b.md'']
   \<and> int (length (formattedResults example_externals (the (fuse example_loaded)) ''alpha'' 2)) \<le> 2"
proof -
  have h: "fuse example_loaded = Some (the (fuse example_loaded))"
    by (simp add: example_loaded_def rebuildSearchIndex_def)
  have ev: "map hit_id (formattedResults example_externals (the (fuse example_loaded)) ''alpha'' 2)
       = [''a.md'', ''b.md'']"
    by code_simp
  note t = search_documents_limit [OF example_search_limit, of example_loaded "''alpha''" "Some 2"
      "the (fuse example_loaded)" 2]
  from t h have c1: "CallTool example_externals example_loaded (Call (search_documents ''alpha'' (Some 2)))
       = Inr (SearchJson (formattedResults example_externals (the (fuse example_loaded)) ''alpha'' 2))"
    by simp
  from t have c2: "int (length (formattedResults example_externals (the (fuse example_loaded)) ''alpha'' 2)) \<le> 2"
    by simp
  have "fuse example_loaded \<noteq> None"
    by (simp add: example_loaded_def rebuildSearchIndex_def)
  with c1 c2 ev show ?thesis by (intro conjI)
qed

section \<open>Handlers in flight together\<close>

lemma load_store_present:
  "files w filePath = Some f \<Longrightarrow>
   load_store ext (files w) s filePath fm markdown
   = Inr (s\<lparr>documents := Map_set (path_relative ext (docsPath s) filePath)
                           (build_document ext (docsPath s) filePath fm markdown (mtime f))
                           (documents s),
           tfidf := tfidf s @ [content (build_document ext (docsPath s) filePath fm markdown (mtime f))]\<rparr>)"
  by (simp add: load_store_def stat_def Let_def build_document_def)

lemma resume_AwaitStat:
  assumes "k < length (tasks w)" and "tasks w ! k = AwaitStat filePath fm markdown"
    and "files w filePath = Some f"
  shows "Map_get (documents (srv (resume ext k w))) (path_relative ext (docsPath (srv w)) filePath)
           = Some (build_document ext (docsPath (srv w)) filePath fm markdown (mtime f))"
    and "tasks (resume ext k w) = (tasks w)[k := Finished]"
    and "files (resume ext k w) = files w"
    and "docsPath (srv (resume ext k w)) = docsPath (srv w)"
  using assms by (simp_all add: resume_def load_store_present Map_get_set_same)

text \<open>
  Claim C1, amended: when two handlers for the same file are in flight, each stores the
  record built from its own read when it is resumed after \<open>stat\<close>, and the store
  afterwards holds the record of the handler resumed last: the read of the later event
  when the later handler is the last, the read of the earlier event when the earlier
  handler is the last.
\<close>

theorem last_completion_wins:
  assumes i: "i < length (tasks w)" and j: "j < length (tasks w)" and ij: "i < j"
    and ti: "tasks w ! i = AwaitStat filePath fm_i markdown_i"
    and tj: "tasks w ! j = AwaitStat filePath fm_j markdown_j"
    and f: "files w filePath = Some f"
  shows "Map_get (documents (srv (run ext w [Resume i, Resume j])))
           (path_relative ext (docsPath (srv w)) filePath)
         = Some (build_document ext (docsPath (srv w)) filePath fm_j markdown_j (mtime f))
    \<and> Map_get (documents (srv (run ext w [Resume j, Resume i])))
           (path_relative ext (docsPath (srv w)) filePath)
         = Some (build_document ext (docsPath (srv w)) filePath fm_i markdown_i (mtime f))"
proof
  let ?w1 = "resume ext i w"
  have "j < length (tasks ?w1)" "tasks ?w1 ! j = AwaitStat filePath fm_j markdown_j"
    "files ?w1 filePath = Some f" "docsPath (srv ?w1) = docsPath (srv w)"
    using resume_AwaitStat(2-4) [OF i ti f, of ext] j tj ij f by simp_all
  from resume_AwaitStat(1) [OF this(1-3), of ext] this(4)
  show "Map_get (documents (srv (run ext w [Resume i, Resume j])))
           (path_relative ext (docsPath (srv w)) filePath)
         = Some (build_document ext (docsPath (srv w)) filePath fm_j markdown_j (mtime f))"
    by (simp add: run_def)
next
  let ?w1 = "resume ext j w"
  have "i < length (tasks ?w1)" "tasks ?w1 ! i = AwaitStat filePath fm_i markdown_i"
    "files ?w1 filePath = Some f" "docsPath (srv ?w1) = docsPath (srv w)"
    using resume_AwaitStat(2-4) [OF j tj f, of ext] i ti ij f by simp_all
  from resume_AwaitStat(1) [OF this(1-3), of ext] this(4)
  show "Map_get (documents (srv (run ext w [Resume j, Resume i])))
           (path_relative ext (docsPath (srv w)) filePath)
         = Some (build_document ext (docsPath (srv w)) filePath fm_i markdown_i (mtime f))"
    by (simp add: run_def)
qed

text \<open>
  Claim C1 says that the store ends with the record of the later event's read. A note
  is added and modified twice; the handler of the first modification has read
  \<open>first edit\<close>, the handler of the second has read \<open>second edit\<close>, and the first is
  resumed last: the store ends with \<open>first edit\<close>.
\<close>

theorem stale_write_counterexample:
  "tasks (run example_externals example_world example_arrivals)
     = [Finished, AwaitStat ''docs/note.md'' [] ''first edit'',
        AwaitStat ''docs/note.md'' [] ''second edit'']
   \<and> map_option content
       (Map_get (documents (srv (run example_externals example_world example_race))) ''note.md'')
     = Some ''first edit''"
  by code_simp

text \<open>
  Claim C1, amended, for the two modifications of the note, in both orders.
\<close>

theorem last_completion_wins_witness:
  "tasks (run example_externals example_world example_arrivals) ! 1
     = AwaitStat ''docs/note.md'' [] ''first edit''
   \<and> tasks (run example_externals example_world example_arrivals) ! 2
     = AwaitStat ''docs/note.md'' [] ''second edit''
   \<and> Map_get (documents (srv (run example_externals
          (run example_externals example_world example_arrivals) [Resume 1, Resume 2]))) ''note.md''
     = Some (example_note ''note.md'' ''second edit'' 3000)
   \<and> Map_get (documents (srv (run example_externals
          (run example_externals example_world example_arrivals) [Resume 2, Resume 1]))) ''note.md''
     = Some (example_note ''note.md'' ''first edit'' 3000)"
proof -
  let ?w = "run example_externals example_world example_arrivals"
  have ts: "tasks ?w = [Finished, AwaitStat ''docs/note.md'' [] ''first edit'',
        AwaitStat ''docs/note.md'' [] ''second edit'']"
    by code_simp
  have i: "1 < length (tasks ?w)" and j: "2 < length (tasks ?w)" and ij: "(1 :: nat) < 2"
    and ti: "tasks ?w ! 1 = AwaitStat ''docs/note.md'' [] ''first edit''"
    and tj: "tasks ?w ! 2 = AwaitStat ''docs/note.md'' [] ''second edit''"
    by (simp_all add: ts)
  have f: "files ?w ''docs/note.md'' = Some (example_file ''second edit'' 3000)"
    by code_simp
  have p: "path_relative example_externals ''docs'' ''docs/note.md'' = ''note.md''"
    by code_simp
  have d: "docsPath (srv ?w) = ''docs''"
    by code_simp
  have m: "mtime (example_file ''second edit'' 3000) = 3000"
    by (simp add: example_file_def)
  note t = last_completion_wins [OF i j ij ti tj f, of example_externals]
  from t ti tj show ?thesis
    unfolding d m p example_note_def by simp
qed

text \<open>
  A handler that nothing interrupts is the handler run at once.
\<close>

lemma handler_alone:
  "srv (run ext w [ChangeEvent filePath, Resume (length (tasks w)), Resume (length (tasks w))])
   = on_change ext (files w) (srv w) filePath"
  by (auto simp: run_def resume_def on_change_def loadDocument_def nth_append
      split: sum.splits prod.splits)

end
